theory Spec2Isabelle
  imports Complex_Main
begin

section \<open>The TSN prediction pipeline of ENG\_APP.py\<close>

text \<open>
  The script \<^verbatim>\<open>src/ENG_APP.py\<close> loads seven pickled artifacts, reads five numbers from
  sidebar widgets and, when the Predict button is pressed, runs one \<^verbatim>\<open>try\<close> block:
  five feature transforms, a table of the transformed values, the stacked regressor, the
  inverse transform of its output, and the two result lines. This theory embeds that
  script: Python floats are idealised as \<^typ>\<open>real\<close> (exact arithmetic, no NaN and no
  infinities), numpy arrays are lists, a raised exception is the \<open>Inl\<close> of a sum, and the
  page is the list of widgets a run has emitted so far. The page set-up, the title and the
  SHAP image sections (lines 8--57 and 116--139) are presentation only and are left out.
\<close>

subsection \<open>Exceptions\<close>

text \<open>
  Values of \<open>exn\<close> stand for instances of Python's class \<^verbatim>\<open>Exception\<close>, which is what
  the handler on line 113 matches. Each carries the message that \<^verbatim>\<open>str(e)\<close> returns.
\<close>

datatype exn =
    FileNotFoundError string
  | AttributeError string
  | TypeError string
  | IndexError string
  | ValueError string
  | OtherException string

fun str :: "exn \<Rightarrow> string" where
  "str (FileNotFoundError s) = s"
| "str (AttributeError s) = s"
| "str (TypeError s) = s"
| "str (IndexError s) = s"
| "str (ValueError s) = s"
| "str (OtherException s) = s"

subsection \<open>Arrays\<close>

type_synonym ndarray1 = "real list"
type_synonym ndarray2 = "real list list"

text \<open>\<^verbatim>\<open>a[0]\<close> on a one-dimensional array: IndexError when the array is empty.\<close>

fun index0 :: "ndarray1 \<Rightarrow> exn + real" where
  "index0 [] = Inl (IndexError ''index 0 is out of bounds for axis 0 with size 0'')"
| "index0 (x # xs) = Inr x"

text \<open>\<^verbatim>\<open>a[0, 0]\<close> on a two-dimensional array: IndexError when either axis is empty.\<close>

fun index00 :: "ndarray2 \<Rightarrow> exn + real" where
  "index00 [] = Inl (IndexError ''index 0 is out of bounds for axis 0 with size 0'')"
| "index00 ([] # rows) = Inl (IndexError ''index 0 is out of bounds for axis 1 with size 0'')"
| "index00 ((x # xs) # rows) = Inr x"

subsection \<open>Artifacts\<close>

text \<open>
  What \<^verbatim>\<open>joblib.load\<close> returns is dynamically typed. Three kinds of object occur: a
  fitted regressor with a \<^verbatim>\<open>predict\<close> method, a fitted quantile transformer with
  \<^verbatim>\<open>transform\<close> and \<^verbatim>\<open>inverse_transform\<close>, and a number (a Box--Cox exponent). The
  fitted methods are opaque: any function that returns an array or raises.
\<close>

datatype artifact =
    Regressor "ndarray2 \<Rightarrow> exn + ndarray1"
  | QuantileTransformer "ndarray2 \<Rightarrow> exn + ndarray2" "ndarray2 \<Rightarrow> exn + ndarray2"
  | Scalar real

text \<open>
  Method calls; an object without the method raises AttributeError (the messages are
  abridged).
\<close>

fun transform :: "artifact \<Rightarrow> ndarray2 \<Rightarrow> exn + ndarray2" where
  "transform (QuantileTransformer fwd bwd) X = fwd X"
| "transform (Regressor p) X = Inl (AttributeError ''object has no attribute transform'')"
| "transform (Scalar l) X = Inl (AttributeError ''object has no attribute transform'')"

fun inverse_transform :: "artifact \<Rightarrow> ndarray2 \<Rightarrow> exn + ndarray2" where
  "inverse_transform (QuantileTransformer fwd bwd) X = bwd X"
| "inverse_transform (Regressor p) X =
     Inl (AttributeError ''object has no attribute inverse_transform'')"
| "inverse_transform (Scalar l) X =
     Inl (AttributeError ''object has no attribute inverse_transform'')"

fun predict :: "artifact \<Rightarrow> ndarray2 \<Rightarrow> exn + ndarray1" where
  "predict (Regressor p) X = p X"
| "predict (QuantileTransformer fwd bwd) X =
     Inl (AttributeError ''object has no attribute predict'')"
| "predict (Scalar l) X = Inl (AttributeError ''object has no attribute predict'')"

subsection \<open>The Box--Cox routine\<close>

text \<open>
  Modelled from the spec: \<^verbatim>\<open>scipy.stats.boxcox\<close> (imported on line 6) is library code,
  not a function of \<^verbatim>\<open>src/\<close>. Section 4.1 of the specification gives its value on a
  positive input: \<open>(x^\<lambda> - 1) / \<lambda>\<close> when \<open>\<lambda> \<noteq> 0\<close>, else \<open>ln x\<close>; the power of a positive
  real is \<open>powr\<close>. What the routine does on an input \<open>x \<le> 0\<close> is not written anywhere in
  the repository, so it is the parameter \<open>nonpos\<close>: any function that raises or returns
  a number.
\<close>

definition boxcox1 :: "(real \<Rightarrow> real \<Rightarrow> exn + real) \<Rightarrow> real \<Rightarrow> real \<Rightarrow> exn + real" where
  "boxcox1 nonpos lmbda x =
     (if 0 < x then Inr (if lmbda = 0 then ln x else (x powr lmbda - 1) / lmbda)
      else nonpos x lmbda)"

text \<open>The routine works on an array, element by element; the first failure is raised.\<close>

fun boxcox_array :: "(real \<Rightarrow> real \<Rightarrow> exn + real) \<Rightarrow> real \<Rightarrow> ndarray1 \<Rightarrow> exn + ndarray1" where
  "boxcox_array nonpos lmbda [] = Inr []"
| "boxcox_array nonpos lmbda (x # xs) =
     (case boxcox1 nonpos lmbda x of
        Inl e \<Rightarrow> Inl e
      | Inr y \<Rightarrow>
          (case boxcox_array nonpos lmbda xs of
             Inl e \<Rightarrow> Inl e
           | Inr ys \<Rightarrow> Inr (y # ys)))"

text \<open>
  \<^verbatim>\<open>boxcox(x, lmbda=obj)\<close>: the exponent must be a number; for an object of another
  kind the routine raises (a TypeError in this model, its message abridged).
\<close>

fun boxcox :: "(real \<Rightarrow> real \<Rightarrow> exn + real) \<Rightarrow> ndarray1 \<Rightarrow> artifact \<Rightarrow> exn + ndarray1" where
  "boxcox nonpos xs (Scalar l) = boxcox_array nonpos l xs"
| "boxcox nonpos xs (Regressor p) = Inl (TypeError ''lmbda is not a number'')"
| "boxcox nonpos xs (QuantileTransformer fwd bwd) = Inl (TypeError ''lmbda is not a number'')"

subsection \<open>Loading the artifacts (lines 60--72)\<close>

text \<open>
  The file system maps a file name to the object pickled in it. \<^verbatim>\<open>joblib.load\<close> raises
  FileNotFoundError on a name that is absent.
\<close>

type_synonym filesystem = "string \<Rightarrow> artifact option"

definition joblib_load :: "filesystem \<Rightarrow> string \<Rightarrow> exn + artifact" where
  "joblib_load fs path =
     (case fs path of
        None \<Rightarrow> Inl (FileNotFoundError path)
      | Some obj \<Rightarrow> Inr obj)"

text \<open>The dictionary \<^verbatim>\<open>models\<close> has exactly seven fixed keys.\<close>

record models =
  stack :: artifact
  qt_lcd :: artifact
  qt_gsa :: artifact
  qt_density :: artifact
  lambda_kt :: artifact
  lambda_vf :: artifact
  qt_TSN :: artifact

text \<open>The dictionary display evaluates its seven loads in the order written.\<close>

definition load_models :: "filesystem \<Rightarrow> exn + models" where
  "load_models fs =
     (case joblib_load fs ''stacking_model.pkl'' of Inl e \<Rightarrow> Inl e | Inr a1 \<Rightarrow>
      case joblib_load fs ''qt_lcd.pkl'' of Inl e \<Rightarrow> Inl e | Inr a2 \<Rightarrow>
      case joblib_load fs ''qt_GSA.pkl'' of Inl e \<Rightarrow> Inl e | Inr a3 \<Rightarrow>
      case joblib_load fs ''qt_Density.pkl'' of Inl e \<Rightarrow> Inl e | Inr a4 \<Rightarrow>
      case joblib_load fs ''lambda_Ktoluene.pkl'' of Inl e \<Rightarrow> Inl e | Inr a5 \<Rightarrow>
      case joblib_load fs ''lambda_vf.pkl'' of Inl e \<Rightarrow> Inl e | Inr a6 \<Rightarrow>
      case joblib_load fs ''qt_TSN.pkl'' of Inl e \<Rightarrow> Inl e | Inr a7 \<Rightarrow>
      Inr \<lparr>stack = a1, qt_lcd = a2, qt_gsa = a3, qt_density = a4,
           lambda_kt = a5, lambda_vf = a6, qt_TSN = a7\<rparr>)"

text \<open>
  \<^verbatim>\<open>@st.cache_resource\<close>: the first call that returns stores its result, later calls
  return the stored object without running the body; a call that raises stores nothing.
\<close>

definition load_models_cached :: "models option \<Rightarrow> filesystem \<Rightarrow> (exn + models) \<times> models option" where
  "load_models_cached cache fs =
     (case cache of
        Some m \<Rightarrow> (Inr m, Some m)
      | None \<Rightarrow>
          (case load_models fs of
             Inl e \<Rightarrow> (Inl e, None)
           | Inr m \<Rightarrow> (Inr m, Some m)))"

subsection \<open>The prediction block (lines 84--114)\<close>

record raw_features =
  LCD :: real
  Vf :: real
  GSA :: real
  Density :: real
  Ktoluene :: real

text \<open>The three columns of \<^verbatim>\<open>df_trans\<close>.\<close>

record dataframe =
  Feature :: "string list"
  Original_Value :: "real list"
  Transformed_Value :: "real list"

text \<open>
  What the page shows. \<open>StDataframe\<close> carries the table whose cells the styler renders
  with six decimals; \<open>StWrite\<close> and \<open>StSuccess\<close> carry the label and the number that the
  f-string renders with six decimals. The pictographs that open the two subheaders are
  not ASCII and are left out of the strings. The pandas and Streamlit calls of the block
  (building the table, rendering a widget) are taken to succeed: the exceptions of the
  model come from the artifacts' methods, the Box--Cox routine and the indexing.
\<close>

datatype widget =
    StMarkdown string
  | StSubheader string
  | StDataframe dataframe
  | StWrite string real
  | StSuccess string real
  | StError string

text \<open>
  The four call shapes of lines 86--90 and 104--105, each a library call on a
  one-element array followed by the index that takes the number back out:
  \<^verbatim>\<open>qt.transform([[x]])[0, 0]\<close>, \<^verbatim>\<open>boxcox(np.array([x]), lmbda=l)[0]\<close>,
  \<^verbatim>\<open>reg.predict(X)[0]\<close> and \<^verbatim>\<open>qt.inverse_transform([[y]])[0, 0]\<close>.
\<close>

definition transform_scalar :: "artifact \<Rightarrow> real \<Rightarrow> exn + real" where
  "transform_scalar qt x =
     (case transform qt [[x]] of Inl e \<Rightarrow> Inl e | Inr a \<Rightarrow> index00 a)"

definition boxcox_scalar :: "(real \<Rightarrow> real \<Rightarrow> exn + real) \<Rightarrow> real \<Rightarrow> artifact \<Rightarrow> exn + real" where
  "boxcox_scalar nonpos x l =
     (case boxcox nonpos [x] l of Inl e \<Rightarrow> Inl e | Inr a \<Rightarrow> index0 a)"

definition predict_scalar :: "artifact \<Rightarrow> ndarray2 \<Rightarrow> exn + real" where
  "predict_scalar reg X =
     (case predict reg X of Inl e \<Rightarrow> Inl e | Inr a \<Rightarrow> index0 a)"

definition inverse_transform_scalar :: "artifact \<Rightarrow> real \<Rightarrow> exn + real" where
  "inverse_transform_scalar qt y =
     (case inverse_transform qt [[y]] of Inl e \<Rightarrow> Inl e | Inr a \<Rightarrow> index00 a)"

text \<open>Lines 86--96: the five transforms, in the order written, then the table.\<close>

definition transform_features ::
  "(real \<Rightarrow> real \<Rightarrow> exn + real) \<Rightarrow> models \<Rightarrow> raw_features \<Rightarrow> exn + dataframe" where
  "transform_features nonpos m r =
     (case transform_scalar (qt_lcd m) (LCD r) of Inl e \<Rightarrow> Inl e | Inr lcd_q \<Rightarrow>
      case transform_scalar (qt_gsa m) (GSA r) of Inl e \<Rightarrow> Inl e | Inr gsa_q \<Rightarrow>
      case transform_scalar (qt_density m) (Density r) of Inl e \<Rightarrow> Inl e | Inr density_q \<Rightarrow>
      case boxcox_scalar nonpos (Vf r) (lambda_vf m) of Inl e \<Rightarrow> Inl e | Inr vf_bc \<Rightarrow>
      case boxcox_scalar nonpos (Ktoluene r) (lambda_kt m) of Inl e \<Rightarrow> Inl e | Inr ktol_bc \<Rightarrow>
      Inr \<lparr>Feature = [''LCD'', ''Vf'', ''GSA'', ''Density'', ''Ktoluene''],
           Original_Value = [LCD r, Vf r, GSA r, Density r, Ktoluene r],
           Transformed_Value = [lcd_q, vf_bc, gsa_q, density_q, ktol_bc]\<rparr>)"

text \<open>Lines 98--101.\<close>

definition show_table :: "dataframe \<Rightarrow> widget list" where
  "show_table df_trans =
     [StMarkdown ''<div class=\"card\">'',
      StSubheader ''Feature Transformation'',
      StDataframe df_trans,
      StMarkdown ''</div>'']"

text \<open>Line 103: the column as a \<open>1 \<times> 5\<close> array.\<close>

definition X_user :: "dataframe \<Rightarrow> ndarray2" where
  "X_user df_trans = [Transformed_Value df_trans]"

text \<open>Lines 104--105.\<close>

definition predict_tsn :: "models \<Rightarrow> dataframe \<Rightarrow> exn + real \<times> real" where
  "predict_tsn m df_trans =
     (case predict_scalar (stack m) (X_user df_trans) of Inl e \<Rightarrow> Inl e | Inr pred_trans \<Rightarrow>
      case inverse_transform_scalar (qt_TSN m) pred_trans of Inl e \<Rightarrow> Inl e | Inr pred_orig \<Rightarrow>
      Inr (pred_trans, pred_orig))"

text \<open>Lines 107--111.\<close>

definition show_result :: "real \<Rightarrow> real \<Rightarrow> widget list" where
  "show_result pred_trans pred_orig =
     [StMarkdown ''<div class=\"card\">'',
      StSubheader ''Prediction Result'',
      StWrite ''**Transformed TSN**: '' pred_trans,
      StSuccess ''**Original TSN**: '' pred_orig,
      StMarkdown ''</div>'']"

text \<open>
  The body of the \<^verbatim>\<open>try\<close>: what it has put on the page, and the exception that ended
  it, if one did. Widgets emitted before a failure stay on the page.
\<close>

definition try_body ::
  "(real \<Rightarrow> real \<Rightarrow> exn + real) \<Rightarrow> models \<Rightarrow> raw_features \<Rightarrow> exn option \<times> widget list" where
  "try_body nonpos m r =
     (case transform_features nonpos m r of
        Inl e \<Rightarrow> (Some e, [])
      | Inr df_trans \<Rightarrow>
          (case predict_tsn m df_trans of
             Inl e \<Rightarrow> (Some e, show_table df_trans)
           | Inr (pred_trans, pred_orig) \<Rightarrow>
               (None, show_table df_trans @ show_result pred_trans pred_orig)))"

text \<open>
  Lines 85--114, the \<^verbatim>\<open>try\<close> with its handler. The first component is the exception
  that leaves the statement; the handler matches every \<^verbatim>\<open>Exception\<close>.
\<close>

definition prediction_block ::
  "(real \<Rightarrow> real \<Rightarrow> exn + real) \<Rightarrow> models \<Rightarrow> raw_features \<Rightarrow> exn option \<times> widget list" where
  "prediction_block nonpos m r =
     (case try_body nonpos m r of
        (Some e, page) \<Rightarrow> (None, page @ [StError (''Prediction error: '' @ str e)])
      | (None, page) \<Rightarrow> (None, page))"

subsection \<open>The sidebar (lines 75--81)\<close>

text \<open>
  What the browser holds for the sidebar: for each number field the number the user
  entered, if any, and whether the Predict button was pressed for this run.
\<close>

record sidebar =
  LCD_entry :: "real option"
  Vf_entry :: "real option"
  GSA_entry :: "real option"
  Density_entry :: "real option"
  Ktoluene_entry :: "real option"
  predict_btn :: bool

text \<open>
  Modelled from the spec: \<^verbatim>\<open>st.sidebar.number_input\<close> is Streamlit library code, not a
  function of \<^verbatim>\<open>src/\<close>. Section 6 of the specification leaves the enforcement of the
  ranges to the input collaborator; the widget is given \<^verbatim>\<open>min_value\<close>, \<^verbatim>\<open>max_value\<close>
  and \<^verbatim>\<open>value\<close>, and delivers \<^verbatim>\<open>value\<close> until the user enters a number, then that
  number kept within the two bounds.
\<close>

definition number_input :: "real \<Rightarrow> real \<Rightarrow> real \<Rightarrow> real option \<Rightarrow> real" where
  "number_input min_value max_value val entry =
     (case entry of
        None \<Rightarrow> val
      | Some x \<Rightarrow> max min_value (min max_value x))"

text \<open>Lines 76--80, with the constants of the source.\<close>

definition read_inputs :: "sidebar \<Rightarrow> raw_features" where
  "read_inputs ui =
     \<lparr>LCD = number_input 6.03338 39.1106 8.33 (LCD_entry ui),
      Vf = number_input 0.2574 0.9182 0.5726 (Vf_entry ui),
      GSA = number_input 204.912 7061.42 701.884 (GSA_entry ui),
      Density = number_input 0.237838 2.86501 1.51454 (Density_entry ui),
      Ktoluene = number_input 0.000027383 28527.4 0.013545 (Ktoluene_entry ui)\<rparr>"

subsection \<open>One run of the script\<close>

text \<open>
  A run returns the exception that ended it, if one did, with the prediction widgets it
  has shown, and the cache it leaves for the next run. \<^verbatim>\<open>load_models()\<close> on line 72 is
  outside every \<^verbatim>\<open>try\<close>: an exception there ends the run before the sidebar is read.
\<close>

definition script_run ::
  "(real \<Rightarrow> real \<Rightarrow> exn + real) \<Rightarrow> models option \<Rightarrow> filesystem \<Rightarrow> sidebar
     \<Rightarrow> (exn option \<times> widget list) \<times> models option" where
  "script_run nonpos cache fs ui =
     (case load_models_cached cache fs of
        (Inl e, cache') \<Rightarrow> ((Some e, []), cache')
      | (Inr m, cache') \<Rightarrow>
          (if predict_btn ui then (prediction_block nonpos m (read_inputs ui), cache')
           else ((None, []), cache')))"

subsection \<open>Observations on a page\<close>

text \<open>The two lines of a PredictionResult, and the error banner.\<close>

fun is_result :: "widget \<Rightarrow> bool" where
  "is_result (StWrite label v) = True"
| "is_result (StSuccess label v) = True"
| "is_result w = False"

fun is_error :: "widget \<Rightarrow> bool" where
  "is_error (StError msg) = True"
| "is_error w = False"


subsection \<open>Example artifacts and inputs\<close>

text \<open>
  Small artifacts on which the script can be run by hand: a quantile transformer that
  maps every array to itself, a regressor that sums each row, the exponents 0 and 2.
\<close>

definition identity_qt :: artifact where
  "identity_qt = QuantileTransformer Inr Inr"

definition row_sum_regressor :: artifact where
  "row_sum_regressor = Regressor (\<lambda>X. Inr (map sum_list X))"

definition example_models :: models where
  "example_models =
     \<lparr>stack = row_sum_regressor, qt_lcd = identity_qt, qt_gsa = identity_qt,
      qt_density = identity_qt, lambda_kt = Scalar 2, lambda_vf = Scalar 0,
      qt_TSN = identity_qt\<rparr>"

definition example_raw :: raw_features where
  "example_raw = \<lparr>LCD = 7, Vf = 1, GSA = 300, Density = 1, Ktoluene = 3\<rparr>"



text \<open>The same artifacts, except that the stacking model has no \<^verbatim>\<open>predict\<close> method.\<close>

definition broken_stack_models :: models where
  "broken_stack_models = example_models\<lparr>stack := Scalar 0\<rparr>"

text \<open>A directory with all seven files, and one where only \<^verbatim>\<open>qt_TSN.pkl\<close> is absent.\<close>

definition full_directory :: filesystem where
  "full_directory =
     map_of
       [(''stacking_model.pkl'', row_sum_regressor),
        (''qt_lcd.pkl'', identity_qt),
        (''qt_GSA.pkl'', identity_qt),
        (''qt_Density.pkl'', identity_qt),
        (''lambda_Ktoluene.pkl'', Scalar 2),
        (''lambda_vf.pkl'', Scalar 0),
        (''qt_TSN.pkl'', identity_qt)]"

definition directory_without_tsn :: filesystem where
  "directory_without_tsn = full_directory(''qt_TSN.pkl'' := None)"

text \<open>A sidebar left at its defaults with the button pressed, and one with entries.\<close>

definition default_sidebar :: sidebar where
  "default_sidebar =
     \<lparr>LCD_entry = None, Vf_entry = None, GSA_entry = None, Density_entry = None,
      Ktoluene_entry = None, predict_btn = True\<rparr>"


text \<open>
  Two behaviours a Box--Cox routine can have outside its domain: raising, and evaluating
  the power formula all the same (at \<open>x = 0\<close> and \<open>\<lambda> = 1/2\<close> that is \<open>(0 - 1) / (1/2)\<close>).
\<close>

definition raising_nonpos :: "real \<Rightarrow> real \<Rightarrow> exn + real" where
  "raising_nonpos x lmbda = Inl (ValueError ''Data must be positive.'')"


section \<open>Properties\<close>

subsection \<open>Helper facts\<close>

lemma boxcox_scalar_positive:
  "0 < x \<Longrightarrow>
   boxcox_scalar nonpos x (Scalar l) = Inr (if l = 0 then ln x else (x powr l - 1) / l)"
  by (simp add: boxcox_scalar_def boxcox1_def)


lemma transform_features_example:
  "transform_features nonpos example_models example_raw =
     Inr \<lparr>Feature = [''LCD'', ''Vf'', ''GSA'', ''Density'', ''Ktoluene''],
          Original_Value = [7, 1, 300, 1, 3],
          Transformed_Value = [7, 0, 300, 1, 4]\<rparr>"
  by (simp add: transform_features_def example_models_def example_raw_def identity_qt_def
      transform_scalar_def boxcox_scalar_def boxcox1_def)

lemma example_quantile_scalars:
  "transform_scalar (qt_lcd example_models) (LCD example_raw) = Inr 7"
  "transform_scalar (qt_gsa example_models) (GSA example_raw) = Inr 300"
  "transform_scalar (qt_density example_models) (Density example_raw) = Inr 1"
  by (simp_all add: example_models_def example_raw_def identity_qt_def transform_scalar_def)

lemma example_boxcox_scalars:
  "boxcox_scalar nonpos (Vf example_raw) (lambda_vf example_models) = Inr 0"
  "boxcox_scalar nonpos (Ktoluene example_raw) (lambda_kt example_models) = Inr 4"
  by (simp_all add: example_models_def example_raw_def boxcox_scalar_def boxcox1_def)



lemma example_broken_steps:
  "transform_features nonpos broken_stack_models example_raw =
     Inr \<lparr>Feature = [''LCD'', ''Vf'', ''GSA'', ''Density'', ''Ktoluene''],
          Original_Value = [7, 1, 300, 1, 3],
          Transformed_Value = [7, 0, 300, 1, 4]\<rparr>"
  "predict_tsn broken_stack_models
     \<lparr>Feature = [''LCD'', ''Vf'', ''GSA'', ''Density'', ''Ktoluene''],
      Original_Value = [7, 1, 300, 1, 3],
      Transformed_Value = [7, 0, 300, 1, 4]\<rparr>
     = Inl (AttributeError ''object has no attribute predict'')"
  by (simp_all add: transform_features_def predict_tsn_def predict_scalar_def
      broken_stack_models_def example_models_def example_raw_def identity_qt_def
      transform_scalar_def boxcox_scalar_def boxcox1_def)

lemma try_body_broken_stack:
  "try_body nonpos broken_stack_models example_raw =
     (Some (AttributeError ''object has no attribute predict''),
      show_table \<lparr>Feature = [''LCD'', ''Vf'', ''GSA'', ''Density'', ''Ktoluene''],
          Original_Value = [7, 1, 300, 1, 3],
          Transformed_Value = [7, 0, 300, 1, 4]\<rparr>)"
  by (simp add: try_body_def example_broken_steps)

text \<open>What a page can hold when the body of the \<^verbatim>\<open>try\<close> ends, with and without an exception.\<close>

lemma try_body_failed:
  "try_body nonpos m r = (Some e, page) \<Longrightarrow>
     \<not> list_ex is_result page \<and> \<not> list_ex is_error page"
  by (auto simp: try_body_def show_table_def split: sum.splits prod.splits)

lemma try_body_succeeded:
  "try_body nonpos m r = (None, page) \<Longrightarrow> \<not> list_ex is_error page"
  by (auto simp: try_body_def show_table_def show_result_def split: sum.splits prod.splits)

lemma prediction_block_no_escape: "fst (prediction_block nonpos m r) = None"
  by (simp add: prediction_block_def split: prod.splits option.splits)

lemma load_models_missing_tsn:
  "fs ''qt_TSN.pkl'' = None \<Longrightarrow>
   \<exists>path. fs path = None \<and> load_models fs = Inl (FileNotFoundError path)"
  by (auto simp: load_models_def joblib_load_def split: option.splits)

lemma transform_features_ignores_predictor:
  "transform_features nonpos (m\<lparr>stack := s, qt_TSN := t\<rparr>) r = transform_features nonpos m r"
  by (simp add: transform_features_def cong: sum.case_cong)









subsection \<open>The Box--Cox formula\<close>

text \<open>
  C1. For every strictly positive input \<open>x\<close> the Box--Cox normalizer returns
  \<open>(x^\<lambda> - 1) / \<lambda>\<close> when the exponent \<open>\<lambda>\<close> is not zero and \<open>ln x\<close> when it is, and the
  script uses it for Vf with the exponent loaded from \<^verbatim>\<open>lambda_vf.pkl\<close> and for Ktoluene
  with the exponent loaded from \<^verbatim>\<open>lambda_Ktoluene.pkl\<close>: these are the second and the
  fifth transformed value of the table.
\<close>

theorem boxcox_normalizer_formula:
  assumes "0 < x" and "0 < Vf r" and "0 < Ktoluene r"
    and "lambda_vf m = Scalar lv" and "lambda_kt m = Scalar lk"
    and "transform_features nonpos m r = Inr df"
  shows "boxcox_scalar nonpos x (Scalar l) = Inr (if l = 0 then ln x else (x powr l - 1) / l)
       \<and> Transformed_Value df ! 1 = (if lv = 0 then ln (Vf r) else (Vf r powr lv - 1) / lv)
       \<and> Transformed_Value df ! 4 =
           (if lk = 0 then ln (Ktoluene r) else (Ktoluene r powr lk - 1) / lk)"
proof -
  have vf: "boxcox_scalar nonpos (Vf r) (lambda_vf m)
              = Inr (if lv = 0 then ln (Vf r) else (Vf r powr lv - 1) / lv)"
    using assms(2,4) by (simp add: boxcox_scalar_positive)
  have kt: "boxcox_scalar nonpos (Ktoluene r) (lambda_kt m)
              = Inr (if lk = 0 then ln (Ktoluene r) else (Ktoluene r powr lk - 1) / lk)"
    using assms(3,5) by (simp add: boxcox_scalar_positive)
  have "Transformed_Value df ! 1 = (if lv = 0 then ln (Vf r) else (Vf r powr lv - 1) / lv)
      \<and> Transformed_Value df ! 4 =
           (if lk = 0 then ln (Ktoluene r) else (Ktoluene r powr lk - 1) / lk)"
    using assms(6) unfolding transform_features_def vf kt
    by (auto split: sum.splits)
  with assms(1) show ?thesis
    by (simp add: boxcox_scalar_positive)
qed

theorem boxcox_normalizer_formula_witness:
  "(0::real) < 3 \<and> 0 < Vf example_raw \<and> 0 < Ktoluene example_raw
   \<and> lambda_vf example_models = Scalar 0 \<and> lambda_kt example_models = Scalar 2
   \<and> boxcox_scalar raising_nonpos 3 (Scalar 2) = Inr 4
   \<and> Transformed_Value
        \<lparr>Feature = [''LCD'', ''Vf'', ''GSA'', ''Density'', ''Ktoluene''],
         Original_Value = [7, 1, 300, 1, 3],
         Transformed_Value = [7, 0, 300, 1, 4]\<rparr> ! 1 = ln (Vf example_raw)
   \<and> Transformed_Value
        \<lparr>Feature = [''LCD'', ''Vf'', ''GSA'', ''Density'', ''Ktoluene''],
         Original_Value = [7, 1, 300, 1, 3],
         Transformed_Value = [7, 0, 300, 1, 4]\<rparr> ! 4 = (Ktoluene example_raw powr 2 - 1) / 2"
proof -
  have h1: "(0::real) < 3" by simp
  have h2: "0 < Vf example_raw" by (simp add: example_raw_def)
  have h3: "0 < Ktoluene example_raw" by (simp add: example_raw_def)
  have h4: "lambda_vf example_models = Scalar 0" by (simp add: example_models_def)
  have h5: "lambda_kt example_models = Scalar 2" by (simp add: example_models_def)
  note h6 = transform_features_example [of raising_nonpos]
  show ?thesis
    using boxcox_normalizer_formula [OF h1 h2 h3 h4 h5 h6, of 2] h2 h3 h4 h5
    by simp
qed

subsection \<open>The feature vector\<close>

text \<open>
  C2. When the five normalizers return \<open>l\<close> (LCD), \<open>v\<close> (Vf), \<open>g\<close> (GSA), \<open>d\<close> (Density)
  and \<open>k\<close> (Ktoluene), the array built on line 103 is the single row \<open>[l, v, g, d, k]\<close>,
  in that order, and lines 104--105 are the regressor of \<^verbatim>\<open>stacking_model.pkl\<close> applied
  to exactly that row, followed by the inverse transform. Whether this is the column
  order of the training data cannot be read from the script; the order is the one the
  specification fixes.
\<close>

theorem feature_vector_order:
  assumes "transform_scalar (qt_lcd m) (LCD r) = Inr l"
    and "boxcox_scalar nonpos (Vf r) (lambda_vf m) = Inr v"
    and "transform_scalar (qt_gsa m) (GSA r) = Inr g"
    and "transform_scalar (qt_density m) (Density r) = Inr d"
    and "boxcox_scalar nonpos (Ktoluene r) (lambda_kt m) = Inr k"
  shows "\<exists>df. transform_features nonpos m r = Inr df
            \<and> X_user df = [[l, v, g, d, k]]
            \<and> predict_tsn m df =
                (case predict_scalar (stack m) [[l, v, g, d, k]] of
                   Inl e \<Rightarrow> Inl e
                 | Inr pred_trans \<Rightarrow>
                     (case inverse_transform_scalar (qt_TSN m) pred_trans of
                        Inl e \<Rightarrow> Inl e
                      | Inr pred_orig \<Rightarrow> Inr (pred_trans, pred_orig)))"
  using assms by (simp add: transform_features_def X_user_def predict_tsn_def)

theorem feature_vector_order_witness:
  "transform_scalar (qt_lcd example_models) (LCD example_raw) = Inr 7
   \<and> boxcox_scalar raising_nonpos (Vf example_raw) (lambda_vf example_models) = Inr 0
   \<and> transform_scalar (qt_gsa example_models) (GSA example_raw) = Inr 300
   \<and> transform_scalar (qt_density example_models) (Density example_raw) = Inr 1
   \<and> boxcox_scalar raising_nonpos (Ktoluene example_raw) (lambda_kt example_models) = Inr 4
   \<and> (\<exists>df. transform_features raising_nonpos example_models example_raw = Inr df
          \<and> X_user df = [[7, 0, 300, 1, 4]]
          \<and> predict_tsn example_models df = Inr (312, 312))"
proof -
  note h1 = example_quantile_scalars(1)
  note h2 = example_boxcox_scalars(1) [of raising_nonpos]
  note h3 = example_quantile_scalars(2)
  note h4 = example_quantile_scalars(3)
  note h5 = example_boxcox_scalars(2) [of raising_nonpos]
  have p: "predict_scalar (stack example_models) [[7, 0, 300, 1, 4]] = Inr 312"
    by (simp add: predict_scalar_def example_models_def row_sum_regressor_def)
  have q: "inverse_transform_scalar (qt_TSN example_models) 312 = Inr 312"
    by (simp add: inverse_transform_scalar_def example_models_def identity_qt_def)
  show ?thesis
    using feature_vector_order [OF h1 h2 h3 h4 h5] h1 h2 h3 h4 h5 p q by simp
qed

subsection \<open>The handler\<close>

text \<open>
  C3. No exception leaves the prediction block: whatever the five transforms, the
  assembly, the regressor or the inverse transform raise, the block ends normally, and
  when the body of the \<^verbatim>\<open>try\<close> was ended by the exception \<open>e\<close> the page is what the
  body had shown, followed by the one banner \<^verbatim>\<open>Prediction error: \<close>\<open>str e\<close>. So a run of
  the script whose artifacts are loaded ends without an exception.
\<close>

theorem errors_caught_at_boundary:
  "fst (prediction_block nonpos m r) = None
   \<and> (\<forall>e page. try_body nonpos m r = (Some e, page) \<longrightarrow>
        prediction_block nonpos m r = (None, page @ [StError (''Prediction error: '' @ str e)])
        \<and> length (filter is_error (snd (prediction_block nonpos m r))) = 1)
   \<and> (\<forall>m' c. load_models_cached cache fs = (Inr m', c) \<longrightarrow>
        fst (fst (script_run nonpos cache fs ui)) = None)"
proof -
  have 1: "fst (prediction_block nonpos m r) = None"
    by (rule prediction_block_no_escape)
  have 2: "prediction_block nonpos m r
             = (None, page @ [StError (''Prediction error: '' @ str e)])
        \<and> length (filter is_error (snd (prediction_block nonpos m r))) = 1"
    if "try_body nonpos m r = (Some e, page)" for e page
  proof -
    from that have "\<not> list_ex is_error page" by (simp add: try_body_failed)
    then have "filter is_error page = []"
      by (simp add: list_ex_iff filter_empty_conv)
    with that show ?thesis by (simp add: prediction_block_def)
  qed
  have 3: "fst (fst (script_run nonpos cache fs ui)) = None"
    if "load_models_cached cache fs = (Inr m', c)" for m' c
    using that by (simp add: script_run_def prediction_block_no_escape)
  from 1 2 3 show ?thesis by blast
qed

theorem errors_caught_at_boundary_witness:
  "try_body raising_nonpos broken_stack_models example_raw =
     (Some (AttributeError ''object has no attribute predict''),
      show_table \<lparr>Feature = [''LCD'', ''Vf'', ''GSA'', ''Density'', ''Ktoluene''],
          Original_Value = [7, 1, 300, 1, 3],
          Transformed_Value = [7, 0, 300, 1, 4]\<rparr>)
   \<and> prediction_block raising_nonpos broken_stack_models example_raw =
     (None,
      show_table \<lparr>Feature = [''LCD'', ''Vf'', ''GSA'', ''Density'', ''Ktoluene''],
          Original_Value = [7, 1, 300, 1, 3],
          Transformed_Value = [7, 0, 300, 1, 4]\<rparr>
      @ [StError ''Prediction error: object has no attribute predict''])
   \<and> load_models_cached (Some broken_stack_models) full_directory
       = (Inr broken_stack_models, Some broken_stack_models)
   \<and> fst (fst (script_run raising_nonpos (Some broken_stack_models) full_directory
                 default_sidebar)) = None"
proof -
  have c: "load_models_cached (Some broken_stack_models) full_directory
       = (Inr broken_stack_models, Some broken_stack_models)"
    by (simp add: load_models_cached_def)
  show ?thesis
    using errors_caught_at_boundary
      [of raising_nonpos broken_stack_models example_raw
          "Some broken_stack_models" full_directory default_sidebar]
      try_body_broken_stack [of raising_nonpos] c
    by simp
qed

subsection \<open>A failed request shows no result\<close>

text \<open>
  C4. When a step of a request fails (one of the transforms, or the regressor or the
  inverse transform after the table is built), the page ends with the error banner for
  that exception and holds neither of the two result lines. On no page do the error
  banner and a result line occur together.
\<close>

theorem failed_request_shows_no_result:
  "(transform_features nonpos m r = Inl e
      \<or> (\<exists>df. transform_features nonpos m r = Inr df \<and> predict_tsn m df = Inl e)
    \<longrightarrow> (\<exists>page. prediction_block nonpos m r = (None, page)
            \<and> last page = StError (''Prediction error: '' @ str e)
            \<and> \<not> list_ex is_result page))
   \<and> (list_ex is_error (snd (prediction_block nonpos m r))
    \<longrightarrow> \<not> list_ex is_result (snd (prediction_block nonpos m r)))"
proof -
  have a: "\<exists>page. prediction_block nonpos m r = (None, page)
            \<and> last page = StError (''Prediction error: '' @ str e)
            \<and> \<not> list_ex is_result page"
    if "transform_features nonpos m r = Inl e
      \<or> (\<exists>df. transform_features nonpos m r = Inr df \<and> predict_tsn m df = Inl e)"
    using that
    by (auto simp: prediction_block_def try_body_def show_table_def)
  have b: "\<not> list_ex is_result (snd (prediction_block nonpos m r))"
    if "list_ex is_error (snd (prediction_block nonpos m r))"
  proof (cases "try_body nonpos m r")
    case (Pair x page)
    show ?thesis
    proof (cases x)
      case None
      with Pair have "\<not> list_ex is_error page" by (simp add: try_body_succeeded)
      with Pair None that show ?thesis by (simp add: prediction_block_def)
    next
      case (Some e')
      with Pair have "\<not> list_ex is_result page" by (simp add: try_body_failed)
      with Pair Some show ?thesis by (simp add: prediction_block_def)
    qed
  qed
  from a b show ?thesis by blast
qed

theorem failed_request_shows_no_result_witness:
  "(\<exists>df. transform_features raising_nonpos broken_stack_models example_raw = Inr df
         \<and> predict_tsn broken_stack_models df
             = Inl (AttributeError ''object has no attribute predict''))
   \<and> list_ex is_error (snd (prediction_block raising_nonpos broken_stack_models example_raw))
   \<and> last (snd (prediction_block raising_nonpos broken_stack_models example_raw))
       = StError ''Prediction error: object has no attribute predict''
   \<and> \<not> list_ex is_result (snd (prediction_block raising_nonpos broken_stack_models example_raw))"
proof -
  have h: "\<exists>df. transform_features raising_nonpos broken_stack_models example_raw = Inr df
         \<and> predict_tsn broken_stack_models df
             = Inl (AttributeError ''object has no attribute predict'')"
    using example_broken_steps(1) [of raising_nonpos] example_broken_steps(2) by simp
  have e: "list_ex is_error (snd (prediction_block raising_nonpos broken_stack_models example_raw))"
    using try_body_broken_stack [of raising_nonpos]
    by (simp add: prediction_block_def)
  show ?thesis
    using failed_request_shows_no_result
      [of raising_nonpos broken_stack_models example_raw
          "AttributeError ''object has no attribute predict''"] h e
    by auto
qed

subsection \<open>A missing TSN artifact\<close>

text \<open>
  C5, as the script has it. When \<^verbatim>\<open>qt_TSN.pkl\<close> is absent and nothing is cached yet,
  \<^verbatim>\<open>load_models\<close> raises FileNotFoundError for a file that is absent, on line 72 and so
  before the sidebar is read and before any step of the pipeline: the exception is not
  caught, nothing is cached, and the run shows no table, no predicted value and no
  \<^verbatim>\<open>Prediction error\<close> banner. The run does not get as far as the inverse transform.
\<close>

theorem missing_tsn_artifact_fails_at_startup:
  assumes "fs ''qt_TSN.pkl'' = None"
  shows "\<exists>path. fs path = None
           \<and> script_run nonpos None fs ui = ((Some (FileNotFoundError path), []), None)"
proof -
  from assms obtain path where "fs path = None" "load_models fs = Inl (FileNotFoundError path)"
    using load_models_missing_tsn by blast
  then show ?thesis
    by (auto simp: script_run_def load_models_cached_def)
qed

text \<open>
  With the six other files in place and the button pressed, the run ends with the
  uncaught FileNotFoundError and an empty page: not with a caught error after the table.
\<close>

theorem missing_tsn_artifact_counterexample:
  "script_run raising_nonpos None directory_without_tsn default_sidebar
     = ((Some (FileNotFoundError ''qt_TSN.pkl''), []), None)"
  by (simp add: script_run_def load_models_cached_def load_models_def joblib_load_def
      directory_without_tsn_def full_directory_def)

theorem missing_tsn_artifact_fails_at_startup_witness:
  "directory_without_tsn ''qt_TSN.pkl'' = None
   \<and> (\<exists>path. directory_without_tsn path = None
         \<and> script_run raising_nonpos None directory_without_tsn default_sidebar
             = ((Some (FileNotFoundError path), []), None))"
proof -
  have h: "directory_without_tsn ''qt_TSN.pkl'' = None"
    by (simp add: directory_without_tsn_def)
  show ?thesis
    using missing_tsn_artifact_fails_at_startup
      [of directory_without_tsn raising_nonpos default_sidebar] h
    by simp
qed

subsection \<open>Box--Cox on a non-positive input\<close>




subsection \<open>The table of transformed values\<close>

text \<open>
  C7. Once the five transforms of a request have succeeded, the table of feature names,
  original values and transformed values, one row for each of the five features, is on
  the page, whatever the stacking model and the TSN transformer then do.
\<close>

theorem table_shown_once_transformed:
  assumes "transform_features nonpos m r = Inr df"
  shows "StDataframe df \<in> set (snd (prediction_block nonpos (m\<lparr>stack := s, qt_TSN := t\<rparr>) r))
       \<and> Feature df = [''LCD'', ''Vf'', ''GSA'', ''Density'', ''Ktoluene'']
       \<and> Original_Value df = [LCD r, Vf r, GSA r, Density r, Ktoluene r]
       \<and> length (Transformed_Value df) = 5"
proof -
  have "transform_features nonpos (m\<lparr>stack := s, qt_TSN := t\<rparr>) r = Inr df"
    using assms by (simp add: transform_features_ignores_predictor)
  then have "StDataframe df
               \<in> set (snd (prediction_block nonpos (m\<lparr>stack := s, qt_TSN := t\<rparr>) r))"
    by (auto simp: prediction_block_def try_body_def show_table_def split: sum.splits)
  moreover have "Feature df = [''LCD'', ''Vf'', ''GSA'', ''Density'', ''Ktoluene'']
       \<and> Original_Value df = [LCD r, Vf r, GSA r, Density r, Ktoluene r]
       \<and> length (Transformed_Value df) = 5"
    using assms by (auto simp: transform_features_def split: sum.splits)
  ultimately show ?thesis by simp
qed

theorem table_shown_once_transformed_witness:
  "transform_features raising_nonpos example_models example_raw =
     Inr \<lparr>Feature = [''LCD'', ''Vf'', ''GSA'', ''Density'', ''Ktoluene''],
          Original_Value = [7, 1, 300, 1, 3],
          Transformed_Value = [7, 0, 300, 1, 4]\<rparr>
   \<and> StDataframe \<lparr>Feature = [''LCD'', ''Vf'', ''GSA'', ''Density'', ''Ktoluene''],
          Original_Value = [7, 1, 300, 1, 3],
          Transformed_Value = [7, 0, 300, 1, 4]\<rparr>
       \<in> set (snd (prediction_block raising_nonpos
                     (example_models\<lparr>stack := Scalar 0, qt_TSN := Scalar 0\<rparr>) example_raw))"
  using table_shown_once_transformed
    [OF transform_features_example [of raising_nonpos], of "Scalar 0" "Scalar 0"]
    transform_features_example [of raising_nonpos]
  by simp

subsection \<open>Repeated runs\<close>


subsection \<open>What is shown is what is predicted from\<close>



subsection \<open>The sidebar keeps the inputs in their domain\<close>



end
